theory Spec2Isabelle
  imports Main "HOL-Library.Sublist" "HOL-Library.AList"
begin

section \<open>Python values\<close>

text \<open>
  The program is Python, so a field of an object holds whatever value was put there: the
  dataclasses of \<^verbatim>\<open>models.py\<close> annotate their fields but check nothing. The values that
  reach the store and the extractor are the ones \<^verbatim>\<open>json.load\<close> produces: \<^verbatim>\<open>None\<close>,
  booleans, integers, strings, lists and dictionaries with string keys (floating point
  numbers are left out). A dictionary is an association list, looked up with
  \<^const>\<open>map_of\<close>; a string is a list of 8-bit characters.
\<close>

datatype json =
    JNull
  | JBool bool
  | JInt int
  | JStr string
  | JList "json list"
  | JDict "(string \<times> json) list"

text \<open>Truth value testing, as in \<^verbatim>\<open>if x:\<close>.\<close>

fun truthy :: "json \<Rightarrow> bool" where
  "truthy JNull = False"
| "truthy (JBool b) = b"
| "truthy (JInt n) = (n \<noteq> 0)"
| "truthy (JStr s) = (s \<noteq> [])"
| "truthy (JList xs) = (xs \<noteq> [])"
| "truthy (JDict kvs) = (kvs \<noteq> [])"

text \<open>
  The exceptions the modelled code raises. \<open>ValueError msg\<close> is \<^verbatim>\<open>ValueError(msg)\<close>;
  \<open>ValueErrorFrom prefix e\<close> is \<^verbatim>\<open>ValueError(f"{prefix}{e}")\<close>, the re-raise that puts the
  caught exception \<open>e\<close> into the message.
\<close>

datatype exn =
    ValueError string
  | ValueErrorFrom string exn
  | TypeError
  | AttributeError
  | KeyError string
  | JSONDecodeError
  | FileNotFoundError

definition bind_exn :: "exn + 'a \<Rightarrow> ('a \<Rightarrow> exn + 'b) \<Rightarrow> exn + 'b" where
  "bind_exn m f = (case m of Inl e \<Rightarrow> Inl e | Inr x \<Rightarrow> f x)"

text \<open>\<^verbatim>\<open>x + y\<close> on the values above; a boolean counts as the integer 0 or 1.\<close>

fun py_add :: "json \<Rightarrow> json \<Rightarrow> exn + json" where
  "py_add (JStr a) (JStr b) = Inr (JStr (a @ b))"
| "py_add (JList a) (JList b) = Inr (JList (a @ b))"
| "py_add (JInt a) (JInt b) = Inr (JInt (a + b))"
| "py_add (JInt a) (JBool b) = Inr (JInt (a + (if b then 1 else 0)))"
| "py_add (JBool a) (JInt b) = Inr (JInt ((if a then 1 else 0) + b))"
| "py_add (JBool a) (JBool b) = Inr (JInt ((if a then 1 else 0) + (if b then 1 else 0)))"
| "py_add _ _ = Inl TypeError"

text \<open>
  \<^verbatim>\<open>str.lower()\<close> on characters below 256: the ASCII capitals and the Latin-1 capitals
  (all of 192 to 222 but the multiplication sign 215) move up by 32.
\<close>

definition lower_char :: "char \<Rightarrow> char" where
  "lower_char c =
     (let n = (of_char c :: nat)
      in if (65 \<le> n \<and> n \<le> 90) \<or> (192 \<le> n \<and> n \<le> 222 \<and> n \<noteq> 215)
         then char_of (n + 32) else c)"

definition lower :: "string \<Rightarrow> string" where
  "lower s = map lower_char s"

text \<open>\<^verbatim>\<open>x.lower()\<close> on a value: only a string has the method.\<close>

fun py_lower :: "json \<Rightarrow> exn + string" where
  "py_lower (JStr s) = Inr (lower s)"
| "py_lower _ = Inl AttributeError"

section \<open>The record schema (\<^verbatim>\<open>models.py\<close>)\<close>

record PaperInsights =
  problem :: json  "method" :: json  key_results :: json
  contributions :: json  related_work :: json  future_directions :: json
  classification :: json

text \<open>
  The \<^verbatim>\<open>insights\<close> attribute of a \<^verbatim>\<open>Paper\<close> holds a \<^verbatim>\<open>PaperInsights\<close> object or, when
  the paper was built from a document whose \<^verbatim>\<open>insights\<close> entry is falsy, that plain value.
\<close>

datatype insights_val = InsightsObj PaperInsights | Plain json

text \<open>The field \<^verbatim>\<open>id\<close> is \<open>id_field\<close> here, since \<open>id\<close> is the identity function of HOL.\<close>

record Paper =
  id_field :: json
  title :: json
  authors :: json
  url :: json
  pdf_path :: json
  added_date :: json
  interests :: json
  insights :: insights_val
  status :: json
  "notes" :: json

text \<open>The annotations of \<^verbatim>\<open>models.py\<close>, as predicates: what a valid record is.\<close>

fun is_str :: "json \<Rightarrow> bool" where
  "is_str (JStr s) = True"
| "is_str _ = False"




text \<open>\<^verbatim>\<open>dataclasses.asdict\<close>: the object as a dictionary, nested dataclasses included.\<close>

definition asdict_insights :: "PaperInsights \<Rightarrow> json" where
  "asdict_insights i = JDict
     [(''problem'', problem i), (''method'', method i), (''key_results'', key_results i),
      (''contributions'', contributions i), (''related_work'', related_work i),
      (''future_directions'', future_directions i), (''classification'', classification i)]"

definition asdict :: "Paper \<Rightarrow> json" where
  "asdict p = JDict
     [(''id'', id_field p), (''title'', title p), (''authors'', authors p), (''url'', url p),
      (''pdf_path'', pdf_path p), (''added_date'', added_date p), (''interests'', interests p),
      (''insights'', (case insights p of InsightsObj i \<Rightarrow> asdict_insights i | Plain j \<Rightarrow> j)),
      (''status'', status p), (''notes'', notes p)]"

text \<open>
  Calling a dataclass with keyword arguments, \<^verbatim>\<open>PaperInsights(**d)\<close> and \<^verbatim>\<open>Paper(**d)\<close>:
  a key that is no field, or a missing field without a default, is a \<^verbatim>\<open>TypeError\<close>, and so
  is \<^verbatim>\<open>**\<close> on a value that is no dictionary. Nothing checks the values.
\<close>

definition insights_fields :: "string list" where
  "insights_fields = [''problem'', ''method'', ''key_results'', ''contributions'',
     ''related_work'', ''future_directions'', ''classification'']"

definition paper_fields :: "string list" where
  "paper_fields = [''id'', ''title'', ''authors'', ''url'', ''pdf_path'', ''added_date'',
     ''interests'', ''insights'', ''status'', ''notes'']"

definition kwarg :: "(string \<times> json) list \<Rightarrow> string \<Rightarrow> exn + json" where
  "kwarg kvs k = (case map_of kvs k of None \<Rightarrow> Inl TypeError | Some v \<Rightarrow> Inr v)"

definition new_PaperInsights :: "json \<Rightarrow> exn + PaperInsights" where
  "new_PaperInsights d =
     (case d of
        JDict kvs \<Rightarrow>
          if list_all (\<lambda>k. k \<in> set insights_fields) (map fst kvs) then
            bind_exn (kwarg kvs ''problem'') (\<lambda>a.
            bind_exn (kwarg kvs ''method'') (\<lambda>b.
            bind_exn (kwarg kvs ''key_results'') (\<lambda>c.
            bind_exn (kwarg kvs ''contributions'') (\<lambda>d.
            bind_exn (kwarg kvs ''related_work'') (\<lambda>e.
            bind_exn (kwarg kvs ''future_directions'') (\<lambda>f.
            bind_exn (kwarg kvs ''classification'') (\<lambda>g.
            Inr \<lparr>problem = a, method = b, key_results = c, contributions = d,
                 related_work = e, future_directions = f, classification = g\<rparr>)))))))
          else Inl TypeError
      | _ \<Rightarrow> Inl TypeError)"

text \<open>
  \<open>new_Paper kvs ins\<close> is \<^verbatim>\<open>Paper(**data)\<close> for the dictionary \<open>kvs\<close> whose \<^verbatim>\<open>insights\<close>
  entry, when there is one, has been replaced by \<open>ins\<close>. \<^verbatim>\<open>notes\<close> defaults to \<^verbatim>\<open>""\<close>.
\<close>

definition new_Paper :: "(string \<times> json) list \<Rightarrow> insights_val option \<Rightarrow> exn + Paper" where
  "new_Paper kvs ins =
     (if list_all (\<lambda>k. k \<in> set paper_fields) (map fst kvs) then
        bind_exn (kwarg kvs ''id'') (\<lambda>a.
        bind_exn (kwarg kvs ''title'') (\<lambda>b.
        bind_exn (kwarg kvs ''authors'') (\<lambda>c.
        bind_exn (kwarg kvs ''url'') (\<lambda>d.
        bind_exn (kwarg kvs ''pdf_path'') (\<lambda>e.
        bind_exn (kwarg kvs ''added_date'') (\<lambda>f.
        bind_exn (kwarg kvs ''interests'') (\<lambda>g.
        bind_exn (case ins of None \<Rightarrow> Inl TypeError | Some i \<Rightarrow> Inr i) (\<lambda>h.
        bind_exn (kwarg kvs ''status'') (\<lambda>s.
        Inr \<lparr>id_field = a, title = b, authors = c, url = d, pdf_path = e, added_date = f,
             interests = g, insights = h, status = s,
             notes = (case map_of kvs ''notes'' of None \<Rightarrow> JStr [] | Some n \<Rightarrow> n)\<rparr>)))))))))
      else Inl TypeError)"

section \<open>The collection store (\<^verbatim>\<open>paper_store/store.py\<close>)\<close>

text \<open>
  The store is its directory: the file names in enumeration order, each with its content.
  A content is known up to decoding: \<open>Doc j\<close> is a file that \<^verbatim>\<open>json.load\<close> decodes to
  \<open>j\<close>, which is what \<^verbatim>\<open>json.dump\<close> of \<open>j\<close> writes; \<open>Junk\<close> is a file that \<^verbatim>\<open>json.load\<close>
  raises on. A path is the file name under \<^verbatim>\<open>data_dir\<close>. The methods are named as in the
  source, without the leading underscore of the private ones; a method that changes the
  directory returns its outcome together with the directory afterwards.
\<close>

datatype file_content = Doc json | Junk

type_synonym store = "(string \<times> file_content) list"

definition exists :: "store \<Rightarrow> string \<Rightarrow> bool" where
  "exists fs path \<longleftrightarrow> map_of fs path \<noteq> None"

definition replace_char :: "char \<Rightarrow> char \<Rightarrow> string \<Rightarrow> string" where
  "replace_char a b s = map (\<lambda>c. if c = a then b else c) s"

definition get_paper_path :: "string \<Rightarrow> string" where
  "get_paper_path paper_id =
     (let safe_id = replace_char (CHR ''/'') (CHR ''_'') (replace_char (CHR '':'') (CHR ''_'') paper_id)
      in safe_id @ ''.json'')"

definition save_paper :: "store \<Rightarrow> Paper \<Rightarrow> string \<Rightarrow> store" where
  "save_paper fs paper path = AList.update path (Doc (asdict paper)) fs"

text \<open>
  The body of the \<^verbatim>\<open>try\<close> of \<^verbatim>\<open>_load_paper\<close>. On a decoded value that is no dictionary,
  \<^verbatim>\<open>"insights" in data\<close>, \<^verbatim>\<open>data["insights"]\<close> or \<^verbatim>\<open>Paper(**data)\<close> raises.
\<close>

definition load_body :: "store \<Rightarrow> string \<Rightarrow> exn + Paper" where
  "load_body fs path =
     (case map_of fs path of
        None \<Rightarrow> Inl FileNotFoundError
      | Some Junk \<Rightarrow> Inl JSONDecodeError
      | Some (Doc data) \<Rightarrow>
          (case data of
             JDict kvs \<Rightarrow>
               (case map_of kvs ''insights'' of
                  None \<Rightarrow> new_Paper kvs None
                | Some v \<Rightarrow>
                    if truthy v then
                      bind_exn (new_PaperInsights v) (\<lambda>i. new_Paper kvs (Some (InsightsObj i)))
                    else new_Paper kvs (Some (Plain v)))
           | _ \<Rightarrow> Inl TypeError))"

text \<open>\<^verbatim>\<open>except Exception: return None\<close>.\<close>

definition load_paper :: "store \<Rightarrow> string \<Rightarrow> Paper option" where
  "load_paper fs path = (case load_body fs path of Inl e \<Rightarrow> None | Inr p \<Rightarrow> Some p)"

definition add :: "store \<Rightarrow> Paper \<Rightarrow> (exn + unit) \<times> store" where
  "add fs paper =
     (case id_field paper of
        JStr pid \<Rightarrow>
          (let path = get_paper_path pid
           in if exists fs path
              then (Inl (ValueError (''Paper '' @ pid @ '' already exists'')), fs)
              else (Inr (), save_paper fs paper path))
      | _ \<Rightarrow> (Inl AttributeError, fs))"


definition update :: "store \<Rightarrow> Paper \<Rightarrow> (exn + unit) \<times> store" where
  "update fs paper =
     (case id_field paper of
        JStr pid \<Rightarrow>
          (let path = get_paper_path pid
           in if \<not> exists fs path
              then (Inl (ValueError (''Paper '' @ pid @ '' not found'')), fs)
              else (Inr (), save_paper fs paper path))
      | _ \<Rightarrow> (Inl AttributeError, fs))"

definition delete :: "store \<Rightarrow> string \<Rightarrow> (exn + unit) \<times> store" where
  "delete fs paper_id =
     (let path = get_paper_path paper_id
      in if \<not> exists fs path
         then (Inl (ValueError (''Paper '' @ paper_id @ '' not found'')), fs)
         else (Inr (), AList.delete path fs))"

text \<open>\<^verbatim>\<open>glob("*.json")\<close> yields the names that end in \<^verbatim>\<open>.json\<close>, in directory order.\<close>

definition glob_json :: "store \<Rightarrow> string list" where
  "glob_json fs = filter (suffix ''.json'') (map fst fs)"

definition list_all_papers :: "store \<Rightarrow> Paper list" where
  "list_all_papers fs = List.map_filter (load_paper fs) (glob_json fs)"

text \<open>
  The text searched in the insights: \<^verbatim>\<open>(problem + method + key_results).lower()\<close>.
\<close>

definition insights_text :: "PaperInsights \<Rightarrow> exn + string" where
  "insights_text i =
     bind_exn (py_add (problem i) (method i)) (\<lambda>a.
     bind_exn (py_add a (key_results i)) py_lower)"

text \<open>
  The loop of \<^verbatim>\<open>search\<close> over the papers still to visit, with the results so far. An
  attribute access on a truthy value that is no \<^verbatim>\<open>PaperInsights\<close> raises.
\<close>

fun search_loop :: "string \<Rightarrow> Paper list \<Rightarrow> Paper list \<Rightarrow> exn + Paper list" where
  "search_loop query_lower [] results = Inr results"
| "search_loop query_lower (paper # papers) results =
     bind_exn (py_lower (title paper)) (\<lambda>t.
       if sublist query_lower t then search_loop query_lower papers (results @ [paper])
       else (case insights paper of
               InsightsObj i \<Rightarrow>
                 bind_exn (insights_text i) (\<lambda>txt.
                   if sublist query_lower txt
                   then search_loop query_lower papers (results @ [paper])
                   else search_loop query_lower papers results)
             | Plain j \<Rightarrow>
                 if truthy j then Inl AttributeError
                 else search_loop query_lower papers results))"

definition search :: "store \<Rightarrow> string \<Rightarrow> exn + Paper list" where
  "search fs query = search_loop (lower query) (list_all_papers fs) []"

text \<open>
  What the specification says a search matches, on the text a field holds (a field that
  holds no string contributes the empty text): the lowercased query is a substring of the
  lowercased title, or of the lowercased concatenation of the three narrative fields of
  the insights when the paper has insights.
\<close>

fun str_of :: "json \<Rightarrow> string" where
  "str_of (JStr s) = s"
| "str_of _ = []"

definition spec_matches :: "string \<Rightarrow> Paper \<Rightarrow> bool" where
  "spec_matches q p \<longleftrightarrow>
     sublist (lower q) (lower (str_of (title p))) \<or>
     (case insights p of
        InsightsObj i \<Rightarrow>
          sublist (lower q) (lower (str_of (problem i) @ str_of (method i) @ str_of (key_results i)))
      | Plain j \<Rightarrow> False)"

text \<open>The fields that \<^verbatim>\<open>search\<close> reads hold text.\<close>

definition text_fields :: "Paper \<Rightarrow> bool" where
  "text_fields p \<longleftrightarrow>
     is_str (title p) \<and>
     (case insights p of
        InsightsObj i \<Rightarrow> is_str (problem i) \<and> is_str (method i) \<and> is_str (key_results i)
      | Plain j \<Rightarrow> True)"






section \<open>Sample data (\<^verbatim>\<open>tests/test_paper_store.py\<close>)\<close>

definition sample_insights :: PaperInsights where
  "sample_insights = \<lparr>problem = JStr ''Test problem'', method = JStr ''Test method'',
     key_results = JStr ''Test results'', contributions = JList [JStr ''Contribution 1''],
     related_work = JList [JStr ''Related 1''], future_directions = JList [JStr ''Future 1''],
     classification = JStr ''foundational''\<rparr>"

definition sample_paper :: Paper where
  "sample_paper = \<lparr>id_field = JStr ''arxiv:2301.12345'', title = JStr ''Test Paper'',
     authors = JList [JStr ''Author One'', JStr ''Author Two''],
     url = JStr ''https://arxiv.org/abs/2301.12345'', pdf_path = JNull,
     added_date = JStr ''2025-10-31'', interests = JList [JStr ''deep learning''],
     insights = InsightsObj sample_insights, status = JStr ''to-read'', notes = JStr []\<rparr>"

definition sample_store :: store where
  "sample_store = [(''arxiv_2301.12345.json'', Doc (asdict sample_paper))]"

text \<open>
  The sample paper as the extractor hands it over when the model answered with a list
  under \<^verbatim>\<open>key_results\<close>, and the store that holds it.
\<close>

definition list_results_paper :: Paper where
  "list_results_paper = sample_paper\<lparr>insights :=
     InsightsObj (sample_insights\<lparr>key_results := JList [JStr ''Test results'']\<rparr>)\<rparr>"

definition list_results_store :: store where
  "list_results_store = [(''arxiv_2301.12345.json'', Doc (asdict list_results_paper))]"

section \<open>The insight extraction pipeline (\<^verbatim>\<open>insight_extractor/extractor.py\<close>)\<close>

subsection \<open>Prompt construction\<close>

definition max_text_length :: nat where
  "max_text_length = 8000"

definition truncation_marker :: string where
  "truncation_marker = ''\<newline>\<newline>[... text truncated ...]''"

text \<open>
  The three fixed pieces of the template: before the title, between the title and the
  text, and after the text (where the doubled braces of the f-string are single braces).
\<close>

definition prompt_head :: string where
  \<open>prompt_head =
     ''Extract key insights from this research paper.\<newline>'' @
     ''\<newline>'' @
     ''Paper Title: ''\<close>

definition prompt_mid :: string where
  \<open>prompt_mid =
     ''\<newline>'' @
     ''\<newline>'' @
     ''Paper Text:\<newline>''\<close>

definition prompt_tail :: string where
  \<open>prompt_tail =
     ''\<newline>'' @
     ''\<newline>'' @
     ''Please analyze this paper and extract the following information:\<newline>'' @
     ''\<newline>'' @
     ''1. PROBLEM: What problem or research question does this paper address? (2-3 sentences)\<newline>'' @
     ''2. METHOD: What approach or method does the paper use? (2-3 sentences)\<newline>'' @
     ''3. KEY RESULTS: What are the main results or findings? (2-3 sentences)\<newline>'' @
     ''4. CONTRIBUTIONS: What are the key contributions? (bullet points)\<newline>'' @
     ''5. RELATED WORK: What related work is referenced? (list 3-5 key papers/areas)\<newline>'' @
     ''6. FUTURE DIRECTIONS: What future research directions are mentioned? (bullet points)\<newline>'' @
     ''7. CLASSIFICATION: Is this foundational (introduces new concepts/methods) or incremental (improves existing work)?\<newline>'' @
     ''\<newline>'' @
     ''Format your response as JSON:\<newline>'' @
     ''{\<newline>'' @
     ''  "problem": "...",\<newline>'' @
     ''  "method": "...",\<newline>'' @
     ''  "key_results": "...",\<newline>'' @
     ''  "contributions": ["...", "..."],\<newline>'' @
     ''  "related_work": ["...", "..."],\<newline>'' @
     ''  "future_directions": ["...", "..."],\<newline>'' @
     ''  "classification": "foundational" or "incremental"\<newline>'' @
     ''}''\<close>

definition build_extraction_prompt :: "string \<Rightarrow> string \<Rightarrow> string" where
  "build_extraction_prompt title' text =
     (let truncated_text = take max_text_length text;
          truncated_text = (if length text > max_text_length
                            then truncated_text @ truncation_marker else truncated_text)
      in prompt_head @ title' @ prompt_mid @ truncated_text @ prompt_tail)"

subsection \<open>String methods\<close>

text \<open>
  \<^verbatim>\<open>s.find(sub, start)\<close>: the lowest index at or after \<open>start\<close> where \<open>sub\<close> occurs in
  \<open>s\<close>, or \<open>-1\<close>. A negative \<open>start\<close> counts from the end.
\<close>

fun index_of :: "string \<Rightarrow> string \<Rightarrow> nat option" where
  "index_of sub [] = (if sub = [] then Some 0 else None)"
| "index_of sub (c # cs) =
     (if prefix sub (c # cs) then Some 0 else map_option Suc (index_of sub cs))"

definition find :: "string \<Rightarrow> string \<Rightarrow> int \<Rightarrow> int" where
  "find s sub start =
     (let n = int (length s);
          st = (if start < 0 then max 0 (start + n) else start)
      in if st > n then - 1
         else (case index_of sub (drop (nat st) s) of
                 None \<Rightarrow> - 1
               | Some i \<Rightarrow> st + int i))"

text \<open>\<^verbatim>\<open>s[i:j]\<close>: a negative bound counts from the end, and bounds are clipped.\<close>

definition clip :: "nat \<Rightarrow> int \<Rightarrow> nat" where
  "clip n i = (if i < 0 then nat (max 0 (i + int n)) else min n (nat i))"

definition slice :: "string \<Rightarrow> int \<Rightarrow> int \<Rightarrow> string" where
  "slice s i j = (let a = clip (length s) i; b = clip (length s) j in take (b - a) (drop a s))"

text \<open>
  \<^verbatim>\<open>s.strip()\<close> removes the white space at both ends; below 256 the white space
  characters are 9 to 13, 28 to 32, 133 and 160.
\<close>

definition is_space :: "char \<Rightarrow> bool" where
  "is_space c =
     (let n = (of_char c :: nat)
      in (9 \<le> n \<and> n \<le> 13) \<or> (28 \<le> n \<and> n \<le> 32) \<or> n = 133 \<or> n = 160)"

definition strip :: "string \<Rightarrow> string" where
  "strip s = rev (dropWhile is_space (rev (dropWhile is_space s)))"

subsection \<open>Response parsing\<close>

text \<open>
  The value of the variable \<^verbatim>\<open>json_str\<close> of \<^verbatim>\<open>_parse_response\<close>: the three ways of
  taking the payload out of the response, in the order of the source.
\<close>

definition json_str :: "string \<Rightarrow> string" where
  "json_str response =
     (if sublist ''```json'' response then
        (let json_start = find response ''```json'' 0 + 7;
             json_end = find response ''```'' json_start
         in strip (slice response json_start json_end))
      else if sublist ''```'' response then
        (let json_start = find response ''```'' 0 + 3;
             json_end = find response ''```'' json_start
         in strip (slice response json_start json_end))
      else strip response)"

text \<open>\<^verbatim>\<open>data[key]\<close> with a string key.\<close>

definition subscript :: "json \<Rightarrow> string \<Rightarrow> exn + json" where
  "subscript data k =
     (case data of
        JDict kvs \<Rightarrow> (case map_of kvs k of None \<Rightarrow> Inl (KeyError k) | Some v \<Rightarrow> Inr v)
      | _ \<Rightarrow> Inl TypeError)"

text \<open>The construction of the \<^verbatim>\<open>PaperInsights\<close> from the decoded data, key by key.\<close>

definition insights_of_data :: "json \<Rightarrow> exn + PaperInsights" where
  "insights_of_data data =
     bind_exn (subscript data ''problem'') (\<lambda>a.
     bind_exn (subscript data ''method'') (\<lambda>b.
     bind_exn (subscript data ''key_results'') (\<lambda>c.
     bind_exn (subscript data ''contributions'') (\<lambda>d.
     bind_exn (subscript data ''related_work'') (\<lambda>e.
     bind_exn (subscript data ''future_directions'') (\<lambda>f.
     bind_exn (subscript data ''classification'') (\<lambda>g.
     Inr \<lparr>problem = a, method = b, key_results = c, contributions = d,
          related_work = e, future_directions = f, classification = g\<rparr>)))))))"

text \<open>
  \<^verbatim>\<open>_parse_response\<close>. The decoder \<^verbatim>\<open>json.loads\<close> is the standard library's and is a
  parameter here: \<open>loads s\<close> is the decoded value, or the exception raised. Every
  exception of the body is caught and raised again as a \<^verbatim>\<open>ValueError\<close> that carries it.
\<close>

definition parse_response :: "(string \<Rightarrow> exn + json) \<Rightarrow> string \<Rightarrow> exn + PaperInsights" where
  "parse_response loads response =
     (case bind_exn (loads (json_str response)) insights_of_data of
        Inl e \<Rightarrow> Inl (ValueErrorFrom ''Failed to parse response: '' e)
      | Inr i \<Rightarrow> Inr i)"

text \<open>
  The three shapes of a response around a payload: in a fence labelled \<^verbatim>\<open>json\<close>, in a
  bare fence, each with white space \<open>ws1\<close> and \<open>ws2\<close> between the fences and the payload,
  and the payload alone.
\<close>

definition json_fenced :: "string \<Rightarrow> string \<Rightarrow> string \<Rightarrow> string" where
  "json_fenced ws1 payload ws2 = ''```json'' @ ws1 @ payload @ ws2 @ ''```''"

definition bare_fenced :: "string \<Rightarrow> string \<Rightarrow> string \<Rightarrow> string" where
  "bare_fenced ws1 payload ws2 = ''```'' @ ws1 @ payload @ ws2 @ ''```''"

definition white :: "string \<Rightarrow> bool" where
  "white ws \<longleftrightarrow> ws \<noteq> [] \<and> list_all is_space ws"

subsection \<open>A decoder for the examples\<close>

text \<open>
  The examples below need one decoder to put for \<open>loads\<close>. This one reads the JSON texts
  made of objects, arrays, strings without escapes and the literals \<^verbatim>\<open>null\<close>, \<^verbatim>\<open>true\<close>
  and \<^verbatim>\<open>false\<close>, and raises on every other text. A later occurrence of a key in an object
  replaces the earlier one, as in a Python dictionary.
\<close>

datatype token =
    LBrace | RBrace | LBracket | RBracket | Comma | Colon
  | TStr string | TNull | TTrue | TFalse

fun lex :: "nat \<Rightarrow> string \<Rightarrow> token list option" where
  "lex 0 s = None"
| "lex (Suc n) [] = Some []"
| "lex (Suc n) (c # cs) =
     (if c = CHR '' '' \<or> c = CHR 0x09 \<or> c = CHR 0x0A \<or> c = CHR 0x0D then lex n cs
      else if c = CHR ''{'' then map_option ((#) LBrace) (lex n cs)
      else if c = CHR ''}'' then map_option ((#) RBrace) (lex n cs)
      else if c = CHR ''['' then map_option ((#) LBracket) (lex n cs)
      else if c = CHR '']'' then map_option ((#) RBracket) (lex n cs)
      else if c = CHR '','' then map_option ((#) Comma) (lex n cs)
      else if c = CHR '':'' then map_option ((#) Colon) (lex n cs)
      else if c = CHR 0x22 then
        (let body = takeWhile (\<lambda>x. x \<noteq> CHR 0x22) cs;
             rest = dropWhile (\<lambda>x. x \<noteq> CHR 0x22) cs
         in if rest = [] \<or> list_ex (\<lambda>x. x = CHR 0x5C \<or> (of_char x :: nat) < 32) body then None
            else map_option ((#) (TStr body)) (lex n (tl rest)))
      else if prefix ''null'' (c # cs) then map_option ((#) TNull) (lex n (drop 3 cs))
      else if prefix ''true'' (c # cs) then map_option ((#) TTrue) (lex n (drop 3 cs))
      else if prefix ''false'' (c # cs) then map_option ((#) TFalse) (lex n (drop 4 cs))
      else None)"

fun parse_value :: "nat \<Rightarrow> token list \<Rightarrow> (json \<times> token list) option"
  and parse_elements :: "nat \<Rightarrow> token list \<Rightarrow> (json list \<times> token list) option"
  and parse_members :: "nat \<Rightarrow> token list \<Rightarrow> ((string \<times> json) list \<times> token list) option"
where
  "parse_value 0 ts = None"
| "parse_value (Suc n) [] = None"
| "parse_value (Suc n) (TStr s # ts) = Some (JStr s, ts)"
| "parse_value (Suc n) (TNull # ts) = Some (JNull, ts)"
| "parse_value (Suc n) (TTrue # ts) = Some (JBool True, ts)"
| "parse_value (Suc n) (TFalse # ts) = Some (JBool False, ts)"
| "parse_value (Suc n) (LBracket # RBracket # ts) = Some (JList [], ts)"
| "parse_value (Suc n) (LBracket # ts) =
     map_option (\<lambda>(vs, r). (JList vs, r)) (parse_elements n ts)"
| "parse_value (Suc n) (LBrace # RBrace # ts) = Some (JDict [], ts)"
| "parse_value (Suc n) (LBrace # ts) =
     map_option (\<lambda>(kvs, r). (JDict (foldl (\<lambda>d (k, v). AList.update k v d) [] kvs), r))
       (parse_members n ts)"
| "parse_value (Suc n) (t # ts) = None"
| "parse_elements 0 ts = None"
| "parse_elements (Suc n) ts =
     (case parse_value n ts of
        None \<Rightarrow> None
      | Some (v, RBracket # r) \<Rightarrow> Some ([v], r)
      | Some (v, Comma # r) \<Rightarrow> map_option (\<lambda>(vs, r'). (v # vs, r')) (parse_elements n r)
      | Some (v, r) \<Rightarrow> None)"
| "parse_members 0 ts = None"
| "parse_members (Suc n) (TStr k # Colon # ts) =
     (case parse_value n ts of
        None \<Rightarrow> None
      | Some (v, RBrace # r) \<Rightarrow> Some ([(k, v)], r)
      | Some (v, Comma # r) \<Rightarrow> map_option (\<lambda>(kvs, r'). ((k, v) # kvs, r')) (parse_members n r)
      | Some (v, r) \<Rightarrow> None)"
| "parse_members (Suc n) ts = None"

definition json_loads :: "string \<Rightarrow> exn + json" where
  "json_loads s =
     (case lex (Suc (length s)) s of
        None \<Rightarrow> Inl JSONDecodeError
      | Some ts \<Rightarrow>
          (case parse_value (Suc (length ts)) ts of
             Some (v, []) \<Rightarrow> Inr v
           | _ \<Rightarrow> Inl JSONDecodeError))"

subsection \<open>Sample responses (\<^verbatim>\<open>tests/test_insight_extractor.py\<close>)\<close>

text \<open>
  The JSON object of the tests, with the text of its \<^verbatim>\<open>classification\<close> value left open,
  and the data it decodes to.
\<close>

definition payload_with :: "string \<Rightarrow> string" where
  \<open>payload_with classification_text =
     ''{\<newline>'' @
     ''  "problem": "Test problem",\<newline>'' @
     ''  "method": "Test method",\<newline>'' @
     ''  "key_results": "Test results",\<newline>'' @
     ''  "contributions": ["Contribution 1"],\<newline>'' @
     ''  "related_work": ["Related 1"],\<newline>'' @
     ''  "future_directions": ["Future 1"],\<newline>'' @
     ''  "classification": '' @ classification_text @ ''\<newline>'' @
     ''}''\<close>

definition sample_payload :: string where
  \<open>sample_payload = payload_with ''"foundational"''\<close>

definition survey_payload :: string where
  \<open>survey_payload = payload_with ''"survey"''\<close>

definition prose_response :: string where
  "prose_response = ''This is not JSON''"

definition no_method_response :: string where
  \<open>no_method_response = ''{"problem": "Test problem"}''\<close>

text \<open>A payload with a fence marker inside a string value.\<close>

definition backtick_payload :: string where
  \<open>backtick_payload =
     ''{"problem": "a```b", "method": "m", "key_results": "k", '' @
     ''"contributions": [], "related_work": [], "future_directions": [], '' @
     ''"classification": "foundational"}''\<close>

definition backtick_insights :: PaperInsights where
  "backtick_insights = \<lparr>problem = JStr ''a```b'', method = JStr ''m'', key_results = JStr ''k'',
     contributions = JList [], related_work = JList [], future_directions = JList [],
     classification = JStr ''foundational''\<rparr>"

section \<open>Properties of the collection store\<close>

subsection \<open>Writing and loading a record\<close>

lemma new_PaperInsights_asdict: "new_PaperInsights (asdict_insights i) = Inr i"
  by (simp add: new_PaperInsights_def asdict_insights_def insights_fields_def kwarg_def bind_exn_def)

lemma truthy_asdict_insights: "truthy (asdict_insights i)"
  by (simp add: asdict_insights_def)

lemma load_body_asdict:
  assumes "insights p = InsightsObj i" and "map_of fs path = Some (Doc (asdict p))"
  shows "load_body fs path = Inr p"
  using assms
  by (simp add: load_body_def asdict_def truthy_asdict_insights new_PaperInsights_asdict
      new_Paper_def paper_fields_def kwarg_def bind_exn_def)















subsection \<open>Search\<close>

lemma is_str_conv: "is_str j \<longleftrightarrow> (\<exists>s. j = JStr s)"
  by (cases j) simp_all

lemma insights_text_str:
  assumes "is_str (problem i)" "is_str (method i)" "is_str (key_results i)"
  shows "insights_text i =
    Inr (lower (str_of (problem i) @ str_of (method i) @ str_of (key_results i)))"
  using assms by (auto simp: is_str_conv insights_text_def bind_exn_def)

lemma search_loop_text:
  assumes "\<forall>p\<in>set ps. text_fields p \<and> (\<forall>j. insights p = Plain j \<longrightarrow> \<not> truthy j)"
  shows "search_loop (lower q) ps acc = Inr (acc @ filter (spec_matches q) ps)"
  using assms
proof (induction ps arbitrary: acc)
  case Nil
  then show ?case by simp
next
  case (Cons p ps)
  then obtain t where t: "title p = JStr t"
    by (auto simp: text_fields_def is_str_conv)
  show ?case
  proof (cases "insights p")
    case (InsightsObj i)
    with Cons.prems have "insights_text i =
        Inr (lower (str_of (problem i) @ str_of (method i) @ str_of (key_results i)))"
      by (intro insights_text_str) (simp_all add: text_fields_def)
    with Cons InsightsObj t show ?thesis
      by (simp add: bind_exn_def spec_matches_def)
  next
    case (Plain j)
    with Cons t show ?thesis
      by (simp add: bind_exn_def spec_matches_def)
  qed
qed

lemma new_Paper_insights: "new_Paper kvs ins = Inr p \<Longrightarrow> ins = Some (insights p)"
  by (auto simp: new_Paper_def bind_exn_def kwarg_def split: if_splits option.splits sum.splits)

lemma load_body_plain:
  assumes "load_body fs path = Inr p" and "insights p = Plain j"
  shows "\<not> truthy j"
  using assms
  by (auto simp: load_body_def bind_exn_def split: option.splits file_content.splits json.splits
      if_splits sum.splits dest!: new_Paper_insights)

lemma list_all_papers_plain:
  assumes "p \<in> set (list_all_papers fs)" and "insights p = Plain j"
  shows "\<not> truthy j"
proof -
  from assms(1) obtain n where "load_paper fs n = Some p"
    by (auto simp: list_all_papers_def map_filter_def)
  then have "load_body fs n = Inr p"
    by (simp add: load_paper_def split: sum.splits)
  then show ?thesis using assms(2) by (rule load_body_plain)
qed

lemma list_all_papers_single:
  assumes "insights p = InsightsObj i"
  shows "list_all_papers [(''arxiv_2301.12345.json'', Doc (asdict p))] = [p]"
proof -
  have "load_body [(''arxiv_2301.12345.json'', Doc (asdict p))] ''arxiv_2301.12345.json'' = Inr p"
    using assms by (rule load_body_asdict) simp
  then show ?thesis
    by (simp add: list_all_papers_def glob_json_def map_filter_def load_paper_def suffix_to_prefix)
qed

lemma lower_samples:
  "lower ''nonexistent term'' = ''nonexistent term''"
  "lower ''Test Paper'' = ''test paper''"
  "lower ''TEST METHOD'' = ''test method''"
  "lower ''Test problemTest methodTest results'' = ''test problemtest methodtest results''"
  by code_simp+

text \<open>
  C4, as the code has it. When every record that \<open>list_all\<close> returns holds text in its
  title and in the three narrative fields of its insights, \<open>search\<close> returns exactly the
  records of \<open>list_all\<close> that match, in the order of \<open>list_all\<close>: the lowercased query is
  a substring of the lowercased title or of the lowercased concatenation of problem,
  method and key results.
\<close>

theorem search_filters_list_all:
  assumes "\<forall>p\<in>set (list_all_papers fs). text_fields p"
  shows "search fs q = Inr (filter (spec_matches q) (list_all_papers fs))"
proof -
  have "\<forall>p\<in>set (list_all_papers fs).
      text_fields p \<and> (\<forall>j. insights p = Plain j \<longrightarrow> \<not> truthy j)"
    using assms list_all_papers_plain by blast
  then have "search_loop (lower q) (list_all_papers fs) [] =
      Inr ([] @ filter (spec_matches q) (list_all_papers fs))"
    by (rule search_loop_text)
  then show ?thesis
    by (simp add: search_def)
qed

theorem search_filters_list_all_witness:
  "list_all_papers sample_store = [sample_paper] \<and> text_fields sample_paper \<and>
   search sample_store ''TEST METHOD'' = Inr [sample_paper] \<and>
   search sample_store ''nonexistent term'' = Inr []"
proof -
  have l: "list_all_papers sample_store = [sample_paper]"
    unfolding sample_store_def by (rule list_all_papers_single) (simp add: sample_paper_def)
  have t: "\<forall>p\<in>set (list_all_papers sample_store). text_fields p"
    by (simp add: l text_fields_def sample_paper_def sample_insights_def)
  have m: "spec_matches ''TEST METHOD'' sample_paper"
    by (simp add: spec_matches_def sample_paper_def sample_insights_def lower_samples sublist_code)
  have n: "\<not> spec_matches ''nonexistent term'' sample_paper"
    by (simp add: spec_matches_def sample_paper_def sample_insights_def lower_samples sublist_code)
  from search_filters_list_all [OF t, of "''TEST METHOD''"]
    search_filters_list_all [OF t, of "''nonexistent term''"]
  show ?thesis
    using t m n by (simp add: l)
qed

text \<open>
  C4 as stated fails: the store below holds one record, which \<open>list_all\<close> returns, and the
  search for a term that is not in its title raises a \<^verbatim>\<open>TypeError\<close> on adding the list
  under \<^verbatim>\<open>key_results\<close> to a string, instead of returning the empty sequence.
\<close>

theorem search_raises_counterexample:
  "list_all_papers list_results_store = [list_results_paper] \<and>
   search list_results_store ''nonexistent term'' = Inl TypeError"
proof -
  have l: "list_all_papers list_results_store = [list_results_paper]"
    unfolding list_results_store_def
    by (rule list_all_papers_single) (simp add: list_results_paper_def)
  have "\<not> sublist ''nonexistent term'' ''test paper''"
    by (simp add: sublist_code)
  then show ?thesis
    by (simp add: search_def l bind_exn_def list_results_paper_def sample_paper_def
        sample_insights_def insights_text_def lower_samples)
qed

subsection \<open>The mapping from identifiers to locations\<close>











section \<open>Properties of the insight extraction pipeline\<close>

subsection \<open>The prompt\<close>

lemma length_template:
  "length prompt_head = 61" "length prompt_mid = 14" "length prompt_tail = 898"
  "length truncation_marker = 26"
  by (simp_all add: prompt_head_def prompt_mid_def prompt_tail_def truncation_marker_def)

lemma prompt_shape:
  "build_extraction_prompt t text =
     prompt_head @ t @ prompt_mid @ take 8000 text @
     (if length text > 8000 then truncation_marker else []) @ prompt_tail"
  by (simp add: build_extraction_prompt_def max_text_length_def Let_def)

text \<open>
  C7, as the code has it. The prompt is the template around the title and the first 8000
  characters of the text, followed by the truncation marker exactly when the text is
  longer than 8000 characters. So a longer text makes the prompt contain the marker, the
  length of the prompt is the 973 characters of the template plus the title plus what is
  embedded, and for a text of 10000 characters it stays below 10000 plus the template and
  the title.
\<close>

theorem prompt_truncation:
  "build_extraction_prompt t text =
     prompt_head @ t @ prompt_mid @ take 8000 text @
     (if length text > 8000 then truncation_marker else []) @ prompt_tail \<and>
   length (build_extraction_prompt t text) =
     973 + length t + min (length text) 8000 + (if length text > 8000 then 26 else 0) \<and>
   (length text > 8000 \<longrightarrow> sublist truncation_marker (build_extraction_prompt t text)) \<and>
   (length text = 10000 \<longrightarrow> length (build_extraction_prompt t text) < 10000 + (973 + length t))"
proof (intro conjI impI)
  show "build_extraction_prompt t text =
     prompt_head @ t @ prompt_mid @ take 8000 text @
     (if length text > 8000 then truncation_marker else []) @ prompt_tail"
    by (rule prompt_shape)
  show "length (build_extraction_prompt t text) =
     973 + length t + min (length text) 8000 + (if length text > 8000 then 26 else 0)"
    by (simp add: prompt_shape length_template)
next
  assume "length text > 8000"
  then have "build_extraction_prompt t text =
      (prompt_head @ t @ prompt_mid @ take 8000 text) @ truncation_marker @ prompt_tail"
    by (simp add: prompt_shape)
  then show "sublist truncation_marker (build_extraction_prompt t text)"
    by (simp only: sublist_appendI)
next
  assume "length text = 10000"
  then show "length (build_extraction_prompt t text) < 10000 + (973 + length t)"
    by (simp add: prompt_shape length_template)
qed

theorem prompt_truncation_witness:
  "length (replicate 10000 (CHR ''x'')) = 10000 \<and>
   sublist truncation_marker
     (build_extraction_prompt ''Test Paper'' (replicate 10000 (CHR ''x''))) \<and>
   length (build_extraction_prompt ''Test Paper'' (replicate 10000 (CHR ''x''))) = 9009"
proof -
  note t = prompt_truncation [of "''Test Paper''" "replicate 10000 (CHR ''x'')"]
  have l: "length (replicate 10000 (CHR ''x'')) = 10000"
    by simp
  have "length (build_extraction_prompt ''Test Paper'' (replicate 10000 (CHR ''x''))) =
      973 + length ''Test Paper'' + min (length (replicate 10000 (CHR ''x''))) 8000 +
      (if length (replicate 10000 (CHR ''x'')) > 8000 then 26 else 0)"
    by (rule t [THEN conjunct2, THEN conjunct1])
  then have n: "length (build_extraction_prompt ''Test Paper'' (replicate 10000 (CHR ''x''))) = 9009"
    by simp
  have "length (replicate 10000 (CHR ''x'')) > 8000 \<longrightarrow>
      sublist truncation_marker
        (build_extraction_prompt ''Test Paper'' (replicate 10000 (CHR ''x'')))"
    by (rule t [THEN conjunct2, THEN conjunct2, THEN conjunct1])
  then have "sublist truncation_marker
      (build_extraction_prompt ''Test Paper'' (replicate 10000 (CHR ''x'')))"
    by simp
  with l n show ?thesis by blast
qed

text \<open>
  C7 as stated fails in one direction: a text of 31 characters that itself ends in the
  marker's text gives a prompt that contains the marker, though nothing was cut.
\<close>

theorem marker_without_truncation_counterexample:
  "length (''Intro'' @ truncation_marker) = 31 \<and>
   sublist truncation_marker
     (build_extraction_prompt ''Test Paper'' (''Intro'' @ truncation_marker))"
proof -
  have l: "length (''Intro'' @ truncation_marker) = 31"
    by (simp add: length_template)
  then have "build_extraction_prompt ''Test Paper'' (''Intro'' @ truncation_marker) =
      (prompt_head @ ''Test Paper'' @ prompt_mid @ ''Intro'') @ truncation_marker @ prompt_tail"
    by (simp add: prompt_shape)
  then have "sublist truncation_marker
      (build_extraction_prompt ''Test Paper'' (''Intro'' @ truncation_marker))"
    by (simp only: sublist_appendI)
  with l show ?thesis by simp
qed

subsection \<open>Reading the keys\<close>

lemma insights_of_data_Inr:
  assumes "insights_of_data d = Inr i"
  obtains kvs where "d = JDict kvs"
    and "map_of kvs ''problem'' = Some (problem i)"
    and "map_of kvs ''method'' = Some (method i)"
    and "map_of kvs ''key_results'' = Some (key_results i)"
    and "map_of kvs ''contributions'' = Some (contributions i)"
    and "map_of kvs ''related_work'' = Some (related_work i)"
    and "map_of kvs ''future_directions'' = Some (future_directions i)"
    and "map_of kvs ''classification'' = Some (classification i)"
proof (cases d)
  case (JDict kvs)
  with assms that [of kvs] show ?thesis
    by (auto simp: insights_of_data_def subscript_def bind_exn_def split: option.splits)
qed (use assms in \<open>simp_all add: insights_of_data_def subscript_def bind_exn_def\<close>)

lemma insights_of_data_all_keys:
  assumes "map_of kvs ''problem'' = Some a" "map_of kvs ''method'' = Some b"
    "map_of kvs ''key_results'' = Some c" "map_of kvs ''contributions'' = Some d"
    "map_of kvs ''related_work'' = Some e" "map_of kvs ''future_directions'' = Some f"
    "map_of kvs ''classification'' = Some g"
  shows "insights_of_data (JDict kvs) =
    Inr \<lparr>problem = a, method = b, key_results = c, contributions = d,
         related_work = e, future_directions = f, classification = g\<rparr>"
  using assms by (simp add: insights_of_data_def subscript_def bind_exn_def)

lemma insights_of_data_missing:
  assumes "k \<in> set insights_fields" and "map_of kvs k = None"
  shows "\<exists>k'\<in>set insights_fields. map_of kvs k' = None \<and>
    insights_of_data (JDict kvs) = Inl (KeyError k')"
  using assms
  by (auto simp: insights_of_data_def subscript_def bind_exn_def insights_fields_def
      split: option.splits)

lemma insights_of_data_no_dict:
  assumes "\<forall>kvs. d \<noteq> JDict kvs"
  shows "insights_of_data d = Inl TypeError"
  using assms by (cases d) (simp_all add: insights_of_data_def subscript_def bind_exn_def)

lemma parse_response_loads_Inl:
  "loads (json_str r) = Inl e \<Longrightarrow>
   parse_response loads r = Inl (ValueErrorFrom ''Failed to parse response: '' e)"
  by (simp add: parse_response_def bind_exn_def)

lemma parse_response_loads_Inr:
  "loads (json_str r) = Inr d \<Longrightarrow>
   parse_response loads r =
     (case insights_of_data d of
        Inl e \<Rightarrow> Inl (ValueErrorFrom ''Failed to parse response: '' e)
      | Inr i \<Rightarrow> Inr i)"
  by (simp add: parse_response_def bind_exn_def)

lemma json_str_plain:
  "\<not> sublist ''```'' r \<Longrightarrow> json_str r = strip r"
proof -
  assume n: "\<not> sublist ''```'' r"
  have "sublist ''```'' ''```json''" by (simp add: sublist_code)
  with n have "\<not> sublist ''```json'' r"
    using sublist_order.order_trans by blast
  with n show ?thesis by (simp add: json_str_def)
qed

lemma strip_no_space:
  assumes "s \<noteq> []" and "\<not> is_space (hd s)" and "\<not> is_space (last s)"
  shows "strip s = s"
proof -
  have "dropWhile is_space s = s"
    using assms(1,2) by (cases s) simp_all
  moreover have "dropWhile is_space (rev s) = rev s"
    using assms(1,3) by (cases "rev s") (simp_all add: last_rev [symmetric] hd_rev)
  ultimately show ?thesis by (simp add: strip_def)
qed

text \<open>
  C6. Whatever the decoder: when it raises on the extracted payload, parsing raises the
  one \<^verbatim>\<open>ValueError\<close> that carries the decoder's exception; when the payload decodes to an
  object without one of the seven keys, parsing raises the \<^verbatim>\<open>ValueError\<close> that carries the
  \<^verbatim>\<open>KeyError\<close> of a missing key; when it decodes to a value that is no object, the
  \<^verbatim>\<open>ValueError\<close> that carries a \<^verbatim>\<open>TypeError\<close>. Parsing returns an insights value only when the
  payload decodes to an object that has all seven keys, and then every field is the
  decoded value of its key: no partial and no default value.
\<close>

theorem parse_failure_all_or_nothing:
  "(\<forall>e. loads (json_str r) = Inl e \<longrightarrow>
      parse_response loads r = Inl (ValueErrorFrom ''Failed to parse response: '' e)) \<and>
   (\<forall>kvs k. loads (json_str r) = Inr (JDict kvs) \<and> k \<in> set insights_fields \<and>
      map_of kvs k = None \<longrightarrow>
      (\<exists>k'\<in>set insights_fields. map_of kvs k' = None \<and>
         parse_response loads r =
           Inl (ValueErrorFrom ''Failed to parse response: '' (KeyError k')))) \<and>
   (\<forall>d. loads (json_str r) = Inr d \<and> (\<forall>kvs. d \<noteq> JDict kvs) \<longrightarrow>
      parse_response loads r = Inl (ValueErrorFrom ''Failed to parse response: '' TypeError)) \<and>
   (\<forall>i. parse_response loads r = Inr i \<longrightarrow>
      (\<exists>kvs. loads (json_str r) = Inr (JDict kvs) \<and>
         map_of kvs ''problem'' = Some (problem i) \<and>
         map_of kvs ''method'' = Some (method i) \<and>
         map_of kvs ''key_results'' = Some (key_results i) \<and>
         map_of kvs ''contributions'' = Some (contributions i) \<and>
         map_of kvs ''related_work'' = Some (related_work i) \<and>
         map_of kvs ''future_directions'' = Some (future_directions i) \<and>
         map_of kvs ''classification'' = Some (classification i)))"
proof (intro conjI allI impI)
  fix e assume "loads (json_str r) = Inl e"
  then show "parse_response loads r = Inl (ValueErrorFrom ''Failed to parse response: '' e)"
    by (rule parse_response_loads_Inl)
next
  fix kvs k
  assume a: "loads (json_str r) = Inr (JDict kvs) \<and> k \<in> set insights_fields \<and>
      map_of kvs k = None"
  then obtain k' where "k' \<in> set insights_fields" "map_of kvs k' = None"
    "insights_of_data (JDict kvs) = Inl (KeyError k')"
    using insights_of_data_missing by blast
  with a show "\<exists>k'\<in>set insights_fields. map_of kvs k' = None \<and>
      parse_response loads r = Inl (ValueErrorFrom ''Failed to parse response: '' (KeyError k'))"
    by (auto simp: parse_response_loads_Inr)
next
  fix d assume a: "loads (json_str r) = Inr d \<and> (\<forall>kvs. d \<noteq> JDict kvs)"
  then have "insights_of_data d = Inl TypeError"
    by (simp add: insights_of_data_no_dict)
  with a show "parse_response loads r =
      Inl (ValueErrorFrom ''Failed to parse response: '' TypeError)"
    by (simp add: parse_response_loads_Inr)
next
  fix i assume p: "parse_response loads r = Inr i"
  then obtain d where d: "loads (json_str r) = Inr d"
    by (cases "loads (json_str r)") (simp_all add: parse_response_def bind_exn_def)
  with p have "insights_of_data d = Inr i"
    by (simp add: parse_response_loads_Inr split: sum.splits)
  then obtain kvs where "d = JDict kvs"
    "map_of kvs ''problem'' = Some (problem i)"
    "map_of kvs ''method'' = Some (method i)"
    "map_of kvs ''key_results'' = Some (key_results i)"
    "map_of kvs ''contributions'' = Some (contributions i)"
    "map_of kvs ''related_work'' = Some (related_work i)"
    "map_of kvs ''future_directions'' = Some (future_directions i)"
    "map_of kvs ''classification'' = Some (classification i)"
    by (rule insights_of_data_Inr)
  with d show "\<exists>kvs. loads (json_str r) = Inr (JDict kvs) \<and>
         map_of kvs ''problem'' = Some (problem i) \<and>
         map_of kvs ''method'' = Some (method i) \<and>
         map_of kvs ''key_results'' = Some (key_results i) \<and>
         map_of kvs ''contributions'' = Some (contributions i) \<and>
         map_of kvs ''related_work'' = Some (related_work i) \<and>
         map_of kvs ''future_directions'' = Some (future_directions i) \<and>
         map_of kvs ''classification'' = Some (classification i)"
    by blast
qed

lemma json_str_prose: "json_str prose_response = prose_response"
  by code_simp

lemma json_str_no_method: "json_str no_method_response = no_method_response"
  by code_simp

lemma loads_prose: "json_loads prose_response = Inl JSONDecodeError"
  by code_simp

lemma loads_no_method: "json_loads no_method_response = Inr (JDict [(''problem'', JStr ''Test problem'')])"
  by code_simp

theorem parse_failure_all_or_nothing_witness:
  "json_loads (json_str prose_response) = Inl JSONDecodeError \<and>
   parse_response json_loads prose_response =
     Inl (ValueErrorFrom ''Failed to parse response: '' JSONDecodeError) \<and>
   json_loads (json_str no_method_response) = Inr (JDict [(''problem'', JStr ''Test problem'')]) \<and>
   parse_response json_loads no_method_response =
     Inl (ValueErrorFrom ''Failed to parse response: '' (KeyError ''method''))"
proof -
  have a: "json_loads (json_str prose_response) = Inl JSONDecodeError"
    by (simp add: json_str_prose loads_prose)
  have b: "json_loads (json_str no_method_response) =
      Inr (JDict [(''problem'', JStr ''Test problem'')])"
    by (simp add: json_str_no_method loads_no_method)
  have m: "''method'' \<in> set insights_fields"
    by (simp add: insights_fields_def)
  from parse_failure_all_or_nothing [of json_loads prose_response] a
  have 1: "parse_response json_loads prose_response =
      Inl (ValueErrorFrom ''Failed to parse response: '' JSONDecodeError)"
    by blast
  from parse_failure_all_or_nothing [of json_loads no_method_response] b m
  have "\<exists>k'\<in>set insights_fields. map_of [(''problem'', JStr ''Test problem'')] k' = None \<and>
      parse_response json_loads no_method_response =
        Inl (ValueErrorFrom ''Failed to parse response: '' (KeyError k'))"
    by (elim conjE allE [of _ "[(''problem'', JStr ''Test problem'')]"] allE [of _ "''method''"]) simp
  moreover have "parse_response json_loads no_method_response =
      Inl (ValueErrorFrom ''Failed to parse response: '' (KeyError ''method''))"
    using b by (simp add: parse_response_loads_Inr insights_of_data_def subscript_def bind_exn_def)
  ultimately show ?thesis using a b 1 by simp
qed

text \<open>
  C9. Whatever the decoder: when the extracted payload decodes to an object that has the
  seven keys, parsing succeeds and the \<^verbatim>\<open>classification\<close> field of the result is the decoded
  value of that key, whatever it is; nothing compares it with \<^verbatim>\<open>foundational\<close> and
  \<^verbatim>\<open>incremental\<close>.
\<close>

theorem classification_not_validated:
  assumes "loads (json_str r) = Inr (JDict kvs)"
    and "map_of kvs ''problem'' = Some a" and "map_of kvs ''method'' = Some b"
    and "map_of kvs ''key_results'' = Some c" and "map_of kvs ''contributions'' = Some d"
    and "map_of kvs ''related_work'' = Some e" and "map_of kvs ''future_directions'' = Some f"
    and "map_of kvs ''classification'' = Some g"
  shows "parse_response loads r =
    Inr \<lparr>problem = a, method = b, key_results = c, contributions = d,
         related_work = e, future_directions = f, classification = g\<rparr>"
  using assms(1) insights_of_data_all_keys [OF assms(2-8)]
  by (simp add: parse_response_loads_Inr)

lemma json_str_survey: "json_str survey_payload = survey_payload"
  by code_simp

lemma loads_survey:
  "json_loads survey_payload = Inr (JDict
     [(''problem'', JStr ''Test problem''), (''method'', JStr ''Test method''),
      (''key_results'', JStr ''Test results''), (''contributions'', JList [JStr ''Contribution 1'']),
      (''related_work'', JList [JStr ''Related 1'']),
      (''future_directions'', JList [JStr ''Future 1'']),
      (''classification'', JStr ''survey'')])"
  by code_simp

theorem classification_not_validated_witness:
  "parse_response json_loads survey_payload =
     Inr (sample_insights\<lparr>classification := JStr ''survey''\<rparr>) \<and>
   JStr ''survey'' \<noteq> JStr ''foundational'' \<and> JStr ''survey'' \<noteq> JStr ''incremental''"
proof -
  have l: "json_loads (json_str survey_payload) = Inr (JDict
     [(''problem'', JStr ''Test problem''), (''method'', JStr ''Test method''),
      (''key_results'', JStr ''Test results''), (''contributions'', JList [JStr ''Contribution 1'']),
      (''related_work'', JList [JStr ''Related 1'']),
      (''future_directions'', JList [JStr ''Future 1'']),
      (''classification'', JStr ''survey'')])"
    by (simp add: json_str_survey loads_survey)
  have "parse_response json_loads survey_payload =
      Inr \<lparr>problem = JStr ''Test problem'', method = JStr ''Test method'',
           key_results = JStr ''Test results'', contributions = JList [JStr ''Contribution 1''],
           related_work = JList [JStr ''Related 1''],
           future_directions = JList [JStr ''Future 1''], classification = JStr ''survey''\<rparr>"
    by (rule classification_not_validated [where loads = json_loads and r = survey_payload, OF l])
      simp_all
  then show ?thesis by (simp add: sample_insights_def)
qed

subsection \<open>Finding the fences\<close>

lemma index_of_prefix: "prefix sub s \<Longrightarrow> index_of sub s = Some 0"
  by (cases s) simp_all

lemma index_of_first:
  assumes "sub \<noteq> []" and "\<not> sublist sub (xs @ butlast sub)"
  shows "index_of sub (xs @ sub @ ys) = Some (length xs)"
  using assms(2)
proof (induction xs)
  case Nil
  then show ?case by (simp add: index_of_prefix)
next
  case (Cons x xs)
  have "\<not> prefix sub (x # xs @ sub @ ys)"
  proof
    assume p: "prefix sub (x # xs @ sub @ ys)"
    have "sub = butlast sub @ [last sub]"
      using assms(1) by simp
    then have "x # xs @ sub @ ys = ((x # xs) @ butlast sub) @ (last sub # ys)"
      by (metis append.assoc append_Cons append_Nil)
    then have q: "prefix ((x # xs) @ butlast sub) (x # xs @ sub @ ys)"
      by (metis prefixI)
    have "length sub \<le> length ((x # xs) @ butlast sub)"
      by simp
    with p q have "prefix sub ((x # xs) @ butlast sub)"
      by (rule prefix_length_prefix)
    then have "sublist sub ((x # xs) @ butlast sub)"
      by (rule prefix_imp_sublist)
    with Cons.prems show False by simp
  qed
  moreover have "\<not> sublist sub (xs @ butlast sub)"
    using Cons.prems by (simp add: sublist_Cons_right)
  ultimately show ?case using Cons.IH by simp
qed

lemma sublist_split_at:
  assumes "c \<notin> set sub"
  shows "sublist sub (A @ c # B) \<longleftrightarrow> sublist sub A \<or> sublist sub B"
proof
  assume "sublist sub (A @ c # B)"
  then consider "sublist sub A" | "sublist sub (c # B)"
    | xs1 xs2 where "sub = xs1 @ xs2" "suffix xs1 A" "prefix xs2 (c # B)"
    by (auto simp: sublist_append)
  then show "sublist sub A \<or> sublist sub B"
  proof cases
    case 1
    then show ?thesis by simp
  next
    case 2
    then have "prefix sub (c # B) \<or> sublist sub B"
      by (simp add: sublist_Cons_right)
    moreover have "prefix sub (c # B) \<Longrightarrow> sub = []"
      using assms by (cases sub) auto
    ultimately show ?thesis by auto
  next
    case 3
    have "xs2 = []"
      using 3(1,3) assms by (cases xs2) auto
    with 3(1,2) show ?thesis by (auto intro: suffix_imp_sublist)
  qed
next
  assume "sublist sub A \<or> sublist sub B"
  then show "sublist sub (A @ c # B)"
    by (auto simp: sublist_append sublist_Cons_right)
qed

lemma sublist_skip_left:
  assumes "sub \<noteq> []" and "\<forall>c\<in>set ws. c \<notin> set sub"
  shows "sublist sub (ws @ P) \<longleftrightarrow> sublist sub P"
  using assms(2)
proof (induction ws)
  case Nil
  then show ?case by simp
next
  case (Cons w ws)
  then have "sublist sub ([] @ w # (ws @ P)) \<longleftrightarrow> sublist sub [] \<or> sublist sub (ws @ P)"
    by (intro sublist_split_at) simp
  with Cons assms(1) show ?case by simp
qed

lemma sublist_skip_right:
  assumes "sub \<noteq> []" and "\<forall>c\<in>set ws. c \<notin> set sub"
  shows "sublist sub (P @ ws) \<longleftrightarrow> sublist sub P"
  using assms(2)
proof (induction ws rule: rev_induct)
  case Nil
  then show ?case by simp
next
  case (snoc w ws)
  then have "sublist sub ((P @ ws) @ w # []) \<longleftrightarrow> sublist sub (P @ ws) \<or> sublist sub []"
    by (intro sublist_split_at) simp
  with snoc assms(1) show ?case by simp
qed

lemma space_not_fence: "is_space c \<Longrightarrow> c \<notin> set ''```json''"
  by (auto simp: is_space_def)

lemma white_not_fence:
  assumes "list_all is_space ws"
  shows "\<forall>c\<in>set ws. c \<notin> set ''```json''" and "\<forall>c\<in>set ws. c \<notin> set ''```''"
  using assms space_not_fence by (auto simp: list_all_iff)

lemma no_fence_between:
  assumes "list_all is_space ws1" and "list_all is_space ws2" and "\<not> sublist ''```'' P"
  shows "\<not> sublist ''```'' (ws1 @ P @ ws2)" and "\<not> sublist ''```json'' (ws1 @ P @ ws2)"
proof -
  have "sublist ''```'' (ws1 @ P @ ws2) \<longleftrightarrow> sublist ''```'' (P @ ws2)"
    using white_not_fence(2) [OF assms(1)] by (intro sublist_skip_left) simp_all
  also have "\<dots> \<longleftrightarrow> sublist ''```'' P"
    using white_not_fence(2) [OF assms(2)] by (intro sublist_skip_right) simp_all
  finally show n: "\<not> sublist ''```'' (ws1 @ P @ ws2)"
    using assms(3) by simp
  have "sublist ''```'' ''```json''"
    by (simp add: sublist_code)
  with n show "\<not> sublist ''```json'' (ws1 @ P @ ws2)"
    using sublist_order.order_trans by blast
qed

lemma closing_fence_first:
  assumes "list_all is_space ws1" and "white ws2" and "\<not> sublist ''```'' P"
  shows "\<not> sublist ''```'' ((ws1 @ P @ ws2) @ butlast ''```'')"
proof -
  from assms(2) obtain ws w where ws2: "ws2 = ws @ [w]" and w: "is_space w"
    and ws: "list_all is_space ws"
    by (cases ws2 rule: rev_cases) (auto simp: white_def)
  have "w \<notin> set ''```''"
    using space_not_fence [OF w] by simp
  then have "sublist ''```'' ((ws1 @ P @ ws) @ w # ''``'') \<longleftrightarrow>
      sublist ''```'' (ws1 @ P @ ws) \<or> sublist ''```'' ''``''"
    by (rule sublist_split_at)
  moreover have "\<not> sublist ''```'' ''``''"
    by (simp add: sublist_code)
  moreover have "\<not> sublist ''```'' (ws1 @ P @ ws)"
    using assms(1) ws assms(3) by (rule no_fence_between)
  ultimately show ?thesis
    by (simp add: ws2)
qed

lemma find_at_start: "prefix sub s \<Longrightarrow> find s sub 0 = 0"
  by (simp add: find_def index_of_prefix)

lemma find_closing:
  assumes "sub \<noteq> []" and "\<not> sublist sub (Y @ butlast sub)"
  shows "find (pre @ Y @ sub) sub (int (length pre)) = int (length pre) + int (length Y)"
  using index_of_first [OF assms, of "[]"] by (simp add: find_def)

lemma slice_middle:
  "slice (pre @ Y @ post) (int (length pre)) (int (length pre) + int (length Y)) = Y"
  by (simp add: slice_def clip_def nat_add_distrib)

lemma strip_white_left: "list_all is_space ws \<Longrightarrow> strip (ws @ s) = strip s"
  by (simp add: strip_def list_all_iff dropWhile_append2)

lemma strip_white_right:
  assumes "list_all is_space ws"
  shows "strip (s @ ws) = strip s"
proof (cases "list_all is_space s")
  case True
  with assms have a: "dropWhile is_space (s @ ws) = []" and b: "dropWhile is_space s = []"
    unfolding dropWhile_eq_Nil_conv by (auto simp: list_all_iff)
  show ?thesis unfolding strip_def a b by (rule refl)
next
  case False
  then obtain x where "x \<in> set s" "\<not> is_space x"
    by (auto simp: list_all_iff)
  then have a: "dropWhile is_space (s @ ws) = dropWhile is_space s @ ws"
    by (rule dropWhile_append1)
  have b: "dropWhile is_space (rev ws @ rev (dropWhile is_space s)) =
      dropWhile is_space (rev (dropWhile is_space s))"
    using assms by (intro dropWhile_append2) (simp add: list_all_iff)
  show ?thesis unfolding strip_def a rev_append b by (rule refl)
qed

lemma json_str_json_fenced:
  assumes "list_all is_space ws1" and "white ws2" and "\<not> sublist ''```'' P"
  shows "json_str (json_fenced ws1 P ws2) = strip P"
proof -
  let ?Y = "ws1 @ P @ ws2"
  let ?r = "''```json'' @ ?Y @ ''```''"
  have r: "json_fenced ws1 P ws2 = ?r"
    by (simp add: json_fenced_def)
  have s: "sublist ''```json'' ?r"
    by (rule sublist_append_rightI)
  have "prefix ''```json'' ?r"
    by (rule prefixI) (rule refl)
  then have a: "find ?r ''```json'' 0 + 7 = int (length ''```json'')"
    by (simp add: find_at_start)
  have "\<not> sublist ''```'' (?Y @ butlast ''```'')"
    using assms by (rule closing_fence_first)
  then have b: "find ?r ''```'' (int (length ''```json'')) =
      int (length ''```json'') + int (length ?Y)"
    by (intro find_closing) simp_all
  have c: "slice ?r (int (length ''```json'')) (int (length ''```json'') + int (length ?Y)) = ?Y"
    by (rule slice_middle)
  have ws2: "list_all is_space ws2"
    using assms(2) by (simp add: white_def)
  have "strip ?Y = strip (P @ ws2)"
    using assms(1) by (rule strip_white_left)
  also have "\<dots> = strip P"
    using ws2 by (rule strip_white_right)
  finally have d: "strip ?Y = strip P" .
  have "json_str ?r = strip ?Y"
    unfolding json_str_def Let_def using s by (simp only: if_True a b c)
  with d r show ?thesis by simp
qed

lemma json_str_bare_fenced:
  assumes "white ws1" and "white ws2" and "\<not> sublist ''```'' P"
  shows "json_str (bare_fenced ws1 P ws2) = strip P"
proof -
  let ?Y = "ws1 @ P @ ws2"
  let ?r = "''```'' @ ?Y @ ''```''"
  have r: "bare_fenced ws1 P ws2 = ?r"
    by (simp add: bare_fenced_def)
  have w1: "list_all is_space ws1" and w2: "list_all is_space ws2"
    using assms(1,2) by (simp_all add: white_def)
  from assms(1) obtain w ws where ws1: "ws1 = w # ws" and w: "is_space w"
    and ws: "list_all is_space ws"
    by (cases ws1) (auto simp: white_def)
  from assms(2) obtain v vs where ws2: "ws2 = vs @ [v]" and v: "is_space v"
    and vs: "list_all is_space vs"
    by (cases ws2 rule: rev_cases) (auto simp: white_def)
  have "sublist ''```json'' (''```'' @ w # (ws @ P @ ws2 @ ''```'')) \<longleftrightarrow>
      sublist ''```json'' ''```'' \<or> sublist ''```json'' (ws @ P @ ws2 @ ''```'')"
    using space_not_fence [OF w] by (rule sublist_split_at)
  moreover have "\<not> sublist ''```json'' ''```''"
    by (simp add: sublist_code)
  moreover have "sublist ''```json'' ((ws @ P @ vs) @ v # ''```'') \<longleftrightarrow>
      sublist ''```json'' (ws @ P @ vs) \<or> sublist ''```json'' ''```''"
    using space_not_fence [OF v] by (rule sublist_split_at)
  moreover have "\<not> sublist ''```json'' (ws @ P @ vs)"
    using ws vs assms(3) by (rule no_fence_between)
  ultimately have n: "\<not> sublist ''```json'' ?r"
    by (simp add: ws1 ws2)
  have s: "sublist ''```'' ?r"
    by (rule sublist_append_rightI)
  have "prefix ''```'' ?r"
    by (rule prefixI) (rule refl)
  then have a: "find ?r ''```'' 0 + 3 = int (length ''```'')"
    by (simp add: find_at_start)
  have "\<not> sublist ''```'' (?Y @ butlast ''```'')"
    using w1 assms(2,3) by (rule closing_fence_first)
  then have b: "find ?r ''```'' (int (length ''```'')) = int (length ''```'') + int (length ?Y)"
    by (intro find_closing) simp_all
  have c: "slice ?r (int (length ''```'')) (int (length ''```'') + int (length ?Y)) = ?Y"
    by (rule slice_middle)
  have "strip ?Y = strip (P @ ws2)"
    using w1 by (rule strip_white_left)
  also have "\<dots> = strip P"
    using w2 by (rule strip_white_right)
  finally have d: "strip ?Y = strip P" .
  have "json_str ?r = strip ?Y"
    unfolding json_str_def Let_def using n s by (simp only: if_False if_True a b c)
  with d r show ?thesis by simp
qed

text \<open>
  C5, as the code has it. The strategies are tried in the order of the source: the fence
  labelled \<^verbatim>\<open>json\<close> first, whatever else the response holds, then the bare fence, then
  the whole response. For a payload that contains no fence marker, the payload in a
  \<^verbatim>\<open>json\<close> fence, the payload in a bare fence (white space between fences and payload)
  and the payload alone parse to the same outcome under every decoder, so to equal
  insights values when the payload decodes to the seven keys.
\<close>

theorem fenced_and_bare_parse_alike:
  assumes "white ws1" and "white ws2" and "\<not> sublist ''```'' payload"
  shows "parse_response loads (json_fenced ws1 payload ws2) = parse_response loads payload \<and>
         parse_response loads (bare_fenced ws1 payload ws2) = parse_response loads payload \<and>
         (sublist ''```json'' r \<longrightarrow>
            json_str r = strip (slice r (find r ''```json'' 0 + 7)
              (find r ''```'' (find r ''```json'' 0 + 7)))) \<and>
         (\<not> sublist ''```json'' r \<and> sublist ''```'' r \<longrightarrow>
            json_str r = strip (slice r (find r ''```'' 0 + 3)
              (find r ''```'' (find r ''```'' 0 + 3)))) \<and>
         (\<not> sublist ''```json'' r \<and> \<not> sublist ''```'' r \<longrightarrow> json_str r = strip r)"
proof -
  have w1: "list_all is_space ws1"
    using assms(1) by (simp add: white_def)
  have "json_str (json_fenced ws1 payload ws2) = strip payload"
    using w1 assms(2,3) by (rule json_str_json_fenced)
  moreover have "json_str (bare_fenced ws1 payload ws2) = strip payload"
    using assms by (rule json_str_bare_fenced)
  moreover have "json_str payload = strip payload"
    using assms(3) by (rule json_str_plain)
  ultimately have "parse_response loads (json_fenced ws1 payload ws2) = parse_response loads payload"
    and "parse_response loads (bare_fenced ws1 payload ws2) = parse_response loads payload"
    by (simp_all add: parse_response_def)
  then show ?thesis
    by (simp add: json_str_def Let_def)
qed

lemma sample_payload_no_fence: "\<not> sublist ''```'' sample_payload"
  by code_simp

lemma parse_sample_payload: "parse_response json_loads sample_payload = Inr sample_insights"
  by code_simp

theorem fenced_and_bare_parse_alike_witness:
  "white ''\<newline>    '' \<and> \<not> sublist ''```'' sample_payload \<and>
   parse_response json_loads (json_fenced ''\<newline>    '' sample_payload ''\<newline>    '') =
     Inr sample_insights \<and>
   parse_response json_loads (bare_fenced ''\<newline>    '' sample_payload ''\<newline>    '') =
     Inr sample_insights \<and>
   parse_response json_loads sample_payload = Inr sample_insights"
proof -
  have w: "white ''\<newline>    ''"
    by (simp add: white_def is_space_def)
  note t = fenced_and_bare_parse_alike [OF w w sample_payload_no_fence, of json_loads]
  have "parse_response json_loads (json_fenced ''\<newline>    '' sample_payload ''\<newline>    '') =
      parse_response json_loads sample_payload"
    by (rule t [THEN conjunct1])
  moreover have "parse_response json_loads (bare_fenced ''\<newline>    '' sample_payload ''\<newline>    '') =
      parse_response json_loads sample_payload"
    by (rule t [THEN conjunct2, THEN conjunct1])
  ultimately show ?thesis
    using w sample_payload_no_fence by (simp add: parse_sample_payload)
qed

text \<open>
  C5 as stated fails for a payload with a fence marker inside a string value: the decoder
  accepts the payload and the seven keys are there, yet the payload alone and both fenced
  shapes are cut at the marker and parsing raises for each of them.
\<close>

theorem fence_in_payload_counterexample:
  "json_loads backtick_payload = Inr (asdict_insights backtick_insights) \<and>
   insights_of_data (asdict_insights backtick_insights) = Inr backtick_insights \<and>
   parse_response json_loads backtick_payload =
     Inl (ValueErrorFrom ''Failed to parse response: '' JSONDecodeError) \<and>
   parse_response json_loads (json_fenced ''\<newline>'' backtick_payload ''\<newline>'') =
     Inl (ValueErrorFrom ''Failed to parse response: '' JSONDecodeError) \<and>
   parse_response json_loads (bare_fenced ''\<newline>'' backtick_payload ''\<newline>'') =
     Inl (ValueErrorFrom ''Failed to parse response: '' JSONDecodeError)"
proof -
  have "json_loads backtick_payload = Inr (asdict_insights backtick_insights)"
    by code_simp
  moreover have "insights_of_data (asdict_insights backtick_insights) = Inr backtick_insights"
    by (simp add: insights_of_data_def subscript_def bind_exn_def asdict_insights_def)
  moreover have "parse_response json_loads backtick_payload =
      Inl (ValueErrorFrom ''Failed to parse response: '' JSONDecodeError)"
    by code_simp
  moreover have "parse_response json_loads (json_fenced ''\<newline>'' backtick_payload ''\<newline>'') =
      Inl (ValueErrorFrom ''Failed to parse response: '' JSONDecodeError)"
    by code_simp
  moreover have "parse_response json_loads (bare_fenced ''\<newline>'' backtick_payload ''\<newline>'') =
      Inl (ValueErrorFrom ''Failed to parse response: '' JSONDecodeError)"
    by code_simp
  ultimately show ?thesis by blast
qed

end
